theory Spec2Isabelle
  imports Main "HOL-Library.Word" "HOL-Library.Sublist"
begin

section \<open>The virtual process manager of NEST (nestkernel/vp_manager.cpp)\<close>

text \<open>
  The manager holds the number of threads of each MPI process. The number of virtual
  processes is derived from it and from the number of MPI processes. This theory embeds
  \<^verbatim>\<open>VPManager\<close> as it is written in \<^verbatim>\<open>vp_manager.cpp\<close>: the class as a record, the
  exceptions and the failed assertion as values, the calls into the logger and the OpenMP
  runtime as a list of emitted effects, and the sibling managers reached through
  \<^verbatim>\<open>kernel()\<close> as a record of the answers they give.
\<close>

subsection \<open>Machine integers\<close>

text \<open>
  \<^verbatim>\<open>size_t\<close> and \<^verbatim>\<open>long\<close> are 64 bits wide, \<^verbatim>\<open>int\<close> is 32 bits wide. On a word,
  \<open>+\<close> and \<open>*\<close> wrap around, \<open>div\<close>, \<open>mod\<close> and \<open><\<close> are the unsigned operations of
  \<^verbatim>\<open>size_t\<close>. The conversion of a \<^verbatim>\<open>long\<close> to \<^verbatim>\<open>size_t\<close> keeps the 64 bits, so a
  \<^verbatim>\<open>long\<close> of a dictionary is kept as the word that \<^verbatim>\<open>size_t\<close> reads.
\<close>

type_synonym size_t = "64 word"
type_synonym long = "64 word"
type_synonym c_int = "32 word"

subsection \<open>Dictionaries\<close>

type_synonym Name = string

definition local_num_threads :: Name where
  "local_num_threads = ''local_num_threads''"

definition total_num_virtual_procs :: Name where
  "total_num_virtual_procs = ''total_num_virtual_procs''"

type_synonym DictionaryDatum = "Name \<rightharpoonup> long"

text \<open>
  Modelled from the spec: \<^verbatim>\<open>updateValue\<close> and \<^verbatim>\<open>def\<close> of sli/dictutils.h are not
  among the sources. A request carries optional new values (spec 2 and 4.1):
  \<^verbatim>\<open>updateValue< long >( d, n, value )\<close> answers whether the dictionary has an entry
  \<^verbatim>\<open>n\<close> and, when it has one, assigns it to \<^verbatim>\<open>value\<close>; \<^verbatim>\<open>def< long >( d, n, value )\<close>
  stores \<^verbatim>\<open>value\<close> under \<^verbatim>\<open>n\<close>.
\<close>

definition updateValue :: "DictionaryDatum \<Rightarrow> Name \<Rightarrow> size_t \<Rightarrow> bool \<times> size_t" where
  "updateValue d n v = (case d n of None \<Rightarrow> (False, v) | Some x \<Rightarrow> (True, x))"


subsection \<open>The collaborators behind \<^verbatim>\<open>kernel()\<close> and the environment\<close>

text \<open>
  What the manager reads from outside itself, one field for each query of the source:
  \<^verbatim>\<open>kernel().mpi_manager.get_num_processes()\<close>, \<^verbatim>\<open>kernel().node_manager.size()\<close>,
  \<^verbatim>\<open>kernel().connection_manager.get_user_set_delay_extrema()\<close>,
  \<^verbatim>\<open>kernel().simulation_manager.has_been_simulated()\<close>,
  \<^verbatim>\<open>kernel().model_manager.are_model_defaults_modified()\<close>,
  \<^verbatim>\<open>kernel().sp_manager.is_structural_plasticity_enabled()\<close>, and the environment variable
  \<^verbatim>\<open>OMP_NUM_THREADS\<close>: \<open>None\<close> when \<^verbatim>\<open>std::getenv\<close> returns a null pointer, otherwise the
  \<^verbatim>\<open>int\<close> that \<^verbatim>\<open>std::atoi\<close> reads from its text.
\<close>

record KernelManager =
  get_num_processes :: size_t
  node_manager_size :: size_t
  get_user_set_delay_extrema :: bool
  has_been_simulated :: bool
  are_model_defaults_modified :: bool
  is_structural_plasticity_enabled :: bool
  OMP_NUM_THREADS :: "c_int option"

subsection \<open>Exceptions and effects\<close>

text \<open>
  \<^verbatim>\<open>BadProperty\<close> is the spec's \<open>IncompatibleConfiguration\<close>, \<^verbatim>\<open>KernelException\<close> its
  \<open>KernelLocked\<close>; \<open>AssertionFailure\<close> is a failed \<^verbatim>\<open>assert\<close>, which aborts the program.
\<close>

datatype exception = BadProperty string | KernelException string | AssertionFailure

datatype severity = M_INFO | M_WARNING

datatype effect =
    is_LOG: LOG severity string string
  | omp_set_dynamic bool
  | omp_set_num_threads c_int

subsection \<open>The manager\<close>

text \<open>
  The members \<^verbatim>\<open>force_singlethreading_\<close> and \<^verbatim>\<open>n_threads_\<close>; a name cannot end in an
  underscore here, so each carries the suffix \<open>m\<close>.
\<close>

record VPManager =
  force_singlethreading_m :: bool
  n_threads_m :: size_t

text \<open>
  What a member function leaves behind: the exception it raised, if any, the manager
  after the call, and the effects it emitted, in order.
\<close>

record outcome =
  raised :: "exception option"
  manager :: VPManager
  effects :: "effect list"

text \<open>
  The constructor. \<open>openmp\<close> says whether \<^verbatim>\<open>_OPENMP\<close> is defined in the build; every
  \<^verbatim>\<open>#ifdef _OPENMP\<close> of the source is a test of it.
\<close>

definition VPManager_ctor :: "bool \<Rightarrow> VPManager" where
  "VPManager_ctor openmp = \<lparr>force_singlethreading_m = \<not> openmp, n_threads_m = 1\<rparr>"

text \<open>
  Modelled from the spec: \<^verbatim>\<open>get_num_threads\<close> and \<^verbatim>\<open>get_num_virtual_processes\<close> of
  vp_manager_impl.h are not among the sources. The thread count is the stored field; the
  virtual process count is never stored and always recomputed as the thread count times
  the process count (spec 3).
\<close>

definition get_num_threads :: "VPManager \<Rightarrow> size_t" where
  "get_num_threads vp = n_threads_m vp"

definition get_num_virtual_processes :: "KernelManager \<Rightarrow> VPManager \<Rightarrow> size_t" where
  "get_num_virtual_processes k vp = n_threads_m vp * get_num_processes k"

text \<open>\<^verbatim>\<open>get_OMP_NUM_THREADS\<close>: the \<^verbatim>\<open>int\<close> of \<^verbatim>\<open>atoi\<close> is returned as \<^verbatim>\<open>size_t\<close>.\<close>

definition get_OMP_NUM_THREADS :: "KernelManager \<Rightarrow> size_t" where
  "get_OMP_NUM_THREADS k =
     (case OMP_NUM_THREADS k of Some omp_num_threads \<Rightarrow> scast omp_num_threads | None \<Rightarrow> 0)"

text \<open>\<^verbatim>\<open>set_num_threads\<close>: the assertion, the store, and the call of the OpenMP runtime.\<close>

definition set_num_threads :: "bool \<Rightarrow> KernelManager \<Rightarrow> size_t \<Rightarrow> VPManager \<Rightarrow> outcome" where
  "set_num_threads openmp k n_threads vp =
     (if \<not> (\<not> (is_structural_plasticity_enabled k \<and> 1 < n_threads))
      then \<lparr>raised = Some AssertionFailure, manager = vp, effects = []\<rparr>
      else \<lparr>raised = None,
            manager = vp\<lparr>n_threads_m := n_threads\<rparr>,
            effects = (if openmp then [omp_set_num_threads (ucast n_threads)] else [])\<rparr>)"

text \<open>
  Modelled from the spec: \<^verbatim>\<open>KernelManager::change_number_of_threads\<close> of
  kernel_manager.cpp is not among the sources. Spec 4.1, step 6: the new thread count is
  committed and the thread-parallel runtime is told to resize to that many threads, which
  is \<^verbatim>\<open>set_num_threads\<close>; the propagation to the other subsystems is an external
  broadcast that the spec leaves out.
\<close>

definition change_number_of_threads ::
  "bool \<Rightarrow> KernelManager \<Rightarrow> size_t \<Rightarrow> VPManager \<Rightarrow> outcome" where
  "change_number_of_threads openmp k new_num_threads vp =
     set_num_threads openmp k new_num_threads vp"

definition OMP_msg :: string where
  "OMP_msg = ''OMP_NUM_THREADS is set in your environment, but NEST ignores it.'' @ [CHR 0x0A]
     @ ''For details, see the Guide to parallel computing in the NEST Documentation.''"

text \<open>\<^verbatim>\<open>initialize\<close>.\<close>

definition initialize :: "bool \<Rightarrow> KernelManager \<Rightarrow> bool \<Rightarrow> VPManager \<Rightarrow> outcome" where
  "initialize openmp k reset_kernel vp =
     (if \<not> reset_kernel then \<lparr>raised = None, manager = vp, effects = []\<rparr>
      else
        let dyn = (if openmp then [omp_set_dynamic False] else []);
            info = (if 1 < get_OMP_NUM_THREADS k
                    then [LOG M_INFO ''VPManager::initialize()'' OMP_msg] else []);
            r = set_num_threads openmp k 1 vp
        in r\<lparr>effects := dyn @ info @ effects r\<rparr>)"

text \<open>\<^verbatim>\<open>finalize\<close> has an empty body.\<close>

definition finalize :: "bool \<Rightarrow> VPManager \<Rightarrow> outcome" where
  "finalize b vp = \<lparr>raised = None, manager = vp, effects = []\<rparr>"

text \<open>
  The block of \<^verbatim>\<open>set_status\<close> that fills the vector \<^verbatim>\<open>errors\<close>: six tests in the
  order of the source, each appending its reason.
\<close>

definition collect_errors :: "KernelManager \<Rightarrow> VPManager \<Rightarrow> size_t \<Rightarrow> string list" where
  "collect_errors k vp n_threads =
     (if 0 < node_manager_size k then [''Nodes exist''] else [])
   @ (if get_user_set_delay_extrema k then [''Delay extrema have been set''] else [])
   @ (if has_been_simulated k then [''Network has been simulated''] else [])
   @ (if are_model_defaults_modified k then [''Model defaults were modified''] else [])
   @ (if is_structural_plasticity_enabled k \<and> 1 < n_threads
      then [''Structural plasticity enabled: multithreading cannot be enabled''] else [])
   @ (if force_singlethreading_m vp \<and> 1 < n_threads
      then [''This installation of NEST does not support multiple threads''] else [])"

text \<open>The loop of \<^verbatim>\<open>set_status\<close> that builds the message of the exception.\<close>

fun append_errors :: "string \<Rightarrow> string list \<Rightarrow> string" where
  "append_errors msg [] = msg"
| "append_errors msg (error # errors) = append_errors (msg @ '' '' @ error @ ''.'') errors"

definition BadProperty_msg :: string where
  "BadProperty_msg =
     ''Requested total_num_virtual_procs is incompatible with the number of processes and threads.''
   @ ''It must be an integer multiple of num_processes and equal to ''
   @ ''local_num_threads * num_processes. Value unchanged.''"

text \<open>
  \<^verbatim>\<open>set_status\<close>. The variables \<^verbatim>\<open>n_threads\<close>, \<^verbatim>\<open>n_threads_updated\<close> and
  \<^verbatim>\<open>n_vps_updated\<close> are assigned more than once in the source; each assignment is a new
  binding here, numbered in the order of the source.
\<close>

definition set_status :: "bool \<Rightarrow> KernelManager \<Rightarrow> DictionaryDatum \<Rightarrow> VPManager \<Rightarrow> outcome" where
  "set_status openmp k d vp =
     (let (n_threads_updated, n_threads) = updateValue d local_num_threads (get_num_threads vp);
          (n_vps_updated, n_vps) =
             updateValue d total_num_virtual_procs (get_num_virtual_processes k vp);
          n_threads1 = (if n_vps_updated \<and> \<not> n_threads_updated
                        then n_vps div get_num_processes k else n_threads);
          n_threads_conflict = (n_vps div get_num_processes k \<noteq> n_threads1);
          n_procs_conflict = (n_vps mod get_num_processes k \<noteq> 0)
      in if n_vps_updated \<and> (n_threads_conflict \<or> n_procs_conflict)
         then \<lparr>raised = Some (BadProperty BadProperty_msg), manager = vp, effects = []\<rparr>
         else
           let n_threads_updated1 = (n_threads1 \<noteq> get_num_threads vp);
               n_vps_updated1 = (n_vps \<noteq> get_num_virtual_processes k vp)
           in if n_threads_updated1 \<or> n_vps_updated1
              then
                let errors = collect_errors k vp n_threads1
                in if errors \<noteq> []
                   then \<lparr>raised = Some (KernelException
                            (append_errors ''Number of threads unchanged. Error conditions:'' errors)),
                         manager = vp, effects = []\<rparr>
                   else
                     let warn = (if 0 < get_OMP_NUM_THREADS k \<and> get_OMP_NUM_THREADS k \<noteq> n_threads1
                                 then [LOG M_WARNING ''VPManager::set_status()'' OMP_msg] else []);
                         r = change_number_of_threads openmp k n_threads1 vp
                     in r\<lparr>effects := warn @ effects r\<rparr>
              else \<lparr>raised = None, manager = vp, effects = []\<rparr>)"



section \<open>Auxiliary facts\<close>

lemmas vp_defs = set_status_def updateValue_def get_num_threads_def
  get_num_virtual_processes_def change_number_of_threads_def set_num_threads_def Let_def



text \<open>Unsigned division of \<^verbatim>\<open>size_t\<close> values, read on the natural numbers.\<close>

lemma word_dvd_mod:
  fixes v p :: size_t
  shows "(v mod p = 0) = (unat p dvd unat v)"
  by (metis dvd_eq_mod_eq_0 unat_mod unat_eq_zero)

lemma word_mult_div_cancel:
  fixes t p :: size_t
  assumes "p \<noteq> 0" "unat t * unat p < 2 ^ 64"
  shows "(t * p) div p = t \<and> (t * p) mod p = 0"
proof -
  have "unat t * unat p < 2 ^ LENGTH(64)"
    using assms(2) by simp
  then have m: "unat (t * p) = unat t * unat p"
    by (rule iffD1 [OF unat_mult_lem])
  have p: "0 < unat p" using assms(1) by (simp add: unat_gt_0)
  have "unat ((t * p) div p) = unat t"
    using m p by (simp add: unat_div)
  then have d: "(t * p) div p = t"
    by (rule iffD2 [OF word_unat_eq_iff])
  have "unat ((t * p) mod p) = 0"
    using m by (simp add: unat_mod)
  then have "(t * p) mod p = 0"
    by (rule iffD1 [OF unat_eq_zero])
  with d show ?thesis by simp
qed

section \<open>How \<^verbatim>\<open>set_status\<close> and \<^verbatim>\<open>initialize\<close> end\<close>

lemma collect_errors_Nil:
  "collect_errors k vp n = [] \<longleftrightarrow>
     \<not> 0 < node_manager_size k \<and> \<not> get_user_set_delay_extrema k \<and> \<not> has_been_simulated k
     \<and> \<not> are_model_defaults_modified k
     \<and> \<not> (is_structural_plasticity_enabled k \<and> 1 < n)
     \<and> \<not> (force_singlethreading_m vp \<and> 1 < n)"
  by (simp add: collect_errors_def)

lemma set_num_threads_guarded:
  "collect_errors k vp n = [] \<Longrightarrow>
     set_num_threads openmp k n vp
       = \<lparr>raised = None, manager = vp\<lparr>n_threads_m := n\<rparr>,
          effects = (if openmp then [omp_set_num_threads (ucast n)] else [])\<rparr>"
  by (simp add: collect_errors_Nil set_num_threads_def)

text \<open>The reconciled thread count and virtual process count of a request.\<close>

lemma set_status_unfold:
  "set_status openmp k d vp =
     (let n = (case d local_num_threads of Some t \<Rightarrow> t
               | None \<Rightarrow> (case d total_num_virtual_procs of
                            Some w \<Rightarrow> w div get_num_processes k
                          | None \<Rightarrow> n_threads_m vp));
          v = (case d total_num_virtual_procs of Some w \<Rightarrow> w
               | None \<Rightarrow> n_threads_m vp * get_num_processes k)
      in if d total_num_virtual_procs \<noteq> None
            \<and> (v div get_num_processes k \<noteq> n \<or> v mod get_num_processes k \<noteq> 0)
         then \<lparr>raised = Some (BadProperty BadProperty_msg), manager = vp, effects = []\<rparr>
         else if n \<noteq> n_threads_m vp \<or> v \<noteq> n_threads_m vp * get_num_processes k
         then if collect_errors k vp n \<noteq> []
              then \<lparr>raised = Some (KernelException
                       (append_errors ''Number of threads unchanged. Error conditions:''
                          (collect_errors k vp n))),
                    manager = vp, effects = []\<rparr>
              else (set_num_threads openmp k n vp)
                     \<lparr>effects :=
                        (if 0 < get_OMP_NUM_THREADS k \<and> get_OMP_NUM_THREADS k \<noteq> n
                         then [LOG M_WARNING ''VPManager::set_status()'' OMP_msg] else [])
                        @ effects (set_num_threads openmp k n vp)\<rparr>
         else \<lparr>raised = None, manager = vp, effects = []\<rparr>)"
  by (cases "d local_num_threads"; cases "d total_num_virtual_procs")
     (simp_all add: set_status_def updateValue_def get_num_threads_def
        get_num_virtual_processes_def change_number_of_threads_def Let_def
        split del: if_split cong del: if_weak_cong)


text \<open>The four ways in which \<^verbatim>\<open>set_status\<close> ends.\<close>

lemma set_status_cases:
  assumes n: "n = (case d local_num_threads of Some t \<Rightarrow> t
                   | None \<Rightarrow> (case d total_num_virtual_procs of
                                Some w \<Rightarrow> w div get_num_processes k
                              | None \<Rightarrow> n_threads_m vp))"
    and v: "v = (case d total_num_virtual_procs of Some w \<Rightarrow> w
                 | None \<Rightarrow> n_threads_m vp * get_num_processes k)"
  obtains
    (incompatible)
      "d total_num_virtual_procs \<noteq> None"
      "v div get_num_processes k \<noteq> n \<or> v mod get_num_processes k \<noteq> 0"
      "set_status openmp k d vp
         = \<lparr>raised = Some (BadProperty BadProperty_msg), manager = vp, effects = []\<rparr>"
  | (locked)
      "d total_num_virtual_procs = None
       \<or> (v div get_num_processes k = n \<and> v mod get_num_processes k = 0)"
      "n \<noteq> n_threads_m vp \<or> v \<noteq> n_threads_m vp * get_num_processes k"
      "collect_errors k vp n \<noteq> []"
      "set_status openmp k d vp
         = \<lparr>raised = Some (KernelException
               (append_errors ''Number of threads unchanged. Error conditions:''
                  (collect_errors k vp n))),
            manager = vp, effects = []\<rparr>"
  | (commit)
      "d total_num_virtual_procs = None
       \<or> (v div get_num_processes k = n \<and> v mod get_num_processes k = 0)"
      "n \<noteq> n_threads_m vp \<or> v \<noteq> n_threads_m vp * get_num_processes k"
      "collect_errors k vp n = []"
      "set_status openmp k d vp
         = \<lparr>raised = None, manager = vp\<lparr>n_threads_m := n\<rparr>,
            effects = (if 0 < get_OMP_NUM_THREADS k \<and> get_OMP_NUM_THREADS k \<noteq> n
                       then [LOG M_WARNING ''VPManager::set_status()'' OMP_msg] else [])
                    @ (if openmp then [omp_set_num_threads (ucast n)] else [])\<rparr>"
  | (unchanged)
      "d total_num_virtual_procs = None
       \<or> (v div get_num_processes k = n \<and> v mod get_num_processes k = 0)"
      "n = n_threads_m vp" "v = n_threads_m vp * get_num_processes k"
      "set_status openmp k d vp = \<lparr>raised = None, manager = vp, effects = []\<rparr>"
proof -
  let ?bad = "d total_num_virtual_procs \<noteq> None
      \<and> (v div get_num_processes k \<noteq> n \<or> v mod get_num_processes k \<noteq> 0)"
  let ?differ = "n \<noteq> n_threads_m vp \<or> v \<noteq> n_threads_m vp * get_num_processes k"
  have u: "set_status openmp k d vp =
     (if ?bad
      then \<lparr>raised = Some (BadProperty BadProperty_msg), manager = vp, effects = []\<rparr>
      else if ?differ
      then if collect_errors k vp n \<noteq> []
           then \<lparr>raised = Some (KernelException
                    (append_errors ''Number of threads unchanged. Error conditions:''
                       (collect_errors k vp n))),
                 manager = vp, effects = []\<rparr>
           else (set_num_threads openmp k n vp)
                  \<lparr>effects :=
                     (if 0 < get_OMP_NUM_THREADS k \<and> get_OMP_NUM_THREADS k \<noteq> n
                      then [LOG M_WARNING ''VPManager::set_status()'' OMP_msg] else [])
                     @ effects (set_num_threads openmp k n vp)\<rparr>
      else \<lparr>raised = None, manager = vp, effects = []\<rparr>)"
    unfolding set_status_unfold Let_def n [symmetric] v [symmetric] ..
  show thesis
  proof (cases ?bad)
    case True
    then show thesis using u incompatible by simp
  next
    case nb: False
    then have ok: "d total_num_virtual_procs = None
       \<or> (v div get_num_processes k = n \<and> v mod get_num_processes k = 0)"
      by argo
    show thesis
    proof (cases ?differ)
      case d: True
      show thesis
      proof (cases "collect_errors k vp n = []")
        case True
        have "set_status openmp k d vp
         = \<lparr>raised = None, manager = vp\<lparr>n_threads_m := n\<rparr>,
            effects = (if 0 < get_OMP_NUM_THREADS k \<and> get_OMP_NUM_THREADS k \<noteq> n
                       then [LOG M_WARNING ''VPManager::set_status()'' OMP_msg] else [])
                    @ (if openmp then [omp_set_num_threads (ucast n)] else [])\<rparr>"
          using u nb d True by (simp add: set_num_threads_guarded)
        then show thesis using commit [OF ok d True] by simp
      next
        case False
        then show thesis using u nb d locked [OF ok d False] by simp
      qed
    next
      case False
      then show thesis using u nb unchanged [OF ok] by simp
    qed
  qed
qed


text \<open>\<^verbatim>\<open>initialize\<close> with and without a reset.\<close>

lemma initialize_reset:
  "initialize openmp k True vp
     = \<lparr>raised = None, manager = vp\<lparr>n_threads_m := 1\<rparr>,
        effects = (if openmp then [omp_set_dynamic False] else [])
                @ (if 1 < get_OMP_NUM_THREADS k
                   then [LOG M_INFO ''VPManager::initialize()'' OMP_msg] else [])
                @ (if openmp then [omp_set_num_threads 1] else [])\<rparr>"
  by (simp add: initialize_def set_num_threads_def Let_def)

lemma initialize_no_reset:
  "initialize openmp k False vp = \<lparr>raised = None, manager = vp, effects = []\<rparr>"
  by (simp add: initialize_def)

section \<open>The status query\<close>



section \<open>The decomposition check\<close>

text \<open>
  Against claim C3 as it is worded. The dictionary holds a \<^verbatim>\<open>long\<close>, and \<open>-1\<close> is not
  an integer multiple of 3. \<^verbatim>\<open>updateValue< long >\<close> assigns it to the \<^verbatim>\<open>size_t\<close>
  variable \<^verbatim>\<open>n_vps\<close>, which then reads \<open>2 ^ 64 - 1 = 3 * 6148914691236517205\<close>. On
  three processes both conflict tests are false: no \<^verbatim>\<open>BadProperty\<close> is raised, and a
  pristine kernel commits 6148914691236517205 threads.
\<close>

theorem set_status_incompatible_counterexample:
  "sint (- 1 :: long) = - 1
   \<and> \<not> (3 :: int) dvd sint (- 1 :: long)
   \<and> set_status True
       \<lparr>get_num_processes = 3, node_manager_size = 0, get_user_set_delay_extrema = False,
        has_been_simulated = False, are_model_defaults_modified = False,
        is_structural_plasticity_enabled = False, OMP_NUM_THREADS = None\<rparr>
       [total_num_virtual_procs \<mapsto> - 1] (VPManager_ctor True)
     = \<lparr>raised = None,
        manager = \<lparr>force_singlethreading_m = False, n_threads_m = 6148914691236517205\<rparr>,
        effects = [omp_set_num_threads 1431655765]\<rparr>"
  by (simp add: vp_defs collect_errors_def get_OMP_NUM_THREADS_def
      local_num_threads_def total_num_virtual_procs_def VPManager_ctor_def)

text \<open>
  Claim C3, amended. The requested numbers are read as the unsigned 64-bit values into
  which the code converts them; for a request that is not negative these are the
  requested numbers themselves. The number of processes is at least 1. A call of
  \<^verbatim>\<open>set_status\<close> that requests a number of virtual processes \<open>v\<close> raises
  \<^verbatim>\<open>BadProperty\<close> (the spec's \<open>IncompatibleConfiguration\<close>) and changes nothing, when
  \<open>v\<close>, so read, is not an integer multiple of the number of processes, or when \<open>v\<close>
  divided by the number of processes is not the thread count of the request: the
  requested one, or, when none is requested, the quotient itself. The manager after the
  call is the manager before it and no effect is emitted.
\<close>

theorem set_status_incompatible:
  assumes P: "get_num_processes k \<noteq> 0"
    and v: "d total_num_virtual_procs = Some v"
    and bad: "\<not> unat (get_num_processes k) dvd unat v
       \<or> v div get_num_processes k
            \<noteq> (case d local_num_threads of Some t \<Rightarrow> t | None \<Rightarrow> v div get_num_processes k)"
  shows "set_status openmp k d vp
           = \<lparr>raised = Some (BadProperty BadProperty_msg), manager = vp, effects = []\<rparr>"
proof -
  have "v mod get_num_processes k \<noteq> 0
      \<or> v div get_num_processes k
            \<noteq> (case d local_num_threads of Some t \<Rightarrow> t | None \<Rightarrow> v div get_num_processes k)"
    using bad by (simp add: word_dvd_mod)
  then show ?thesis
    using v by (auto simp: vp_defs split: option.splits)
qed

text \<open>
  With two processes, a request for 3 threads together with 7 virtual processes on a
  freshly constructed manager raises \<^verbatim>\<open>BadProperty\<close> and leaves the manager as it was.
\<close>

theorem set_status_incompatible_witness:
  "set_status True
     \<lparr>get_num_processes = 2, node_manager_size = 0, get_user_set_delay_extrema = False,
      has_been_simulated = False, are_model_defaults_modified = False,
      is_structural_plasticity_enabled = False, OMP_NUM_THREADS = None\<rparr>
     [local_num_threads \<mapsto> 3, total_num_virtual_procs \<mapsto> 7]
     (VPManager_ctor True)
   = \<lparr>raised = Some (BadProperty BadProperty_msg), manager = VPManager_ctor True, effects = []\<rparr>"
  using set_status_incompatible [of
     "\<lparr>get_num_processes = 2, node_manager_size = 0, get_user_set_delay_extrema = False,
      has_been_simulated = False, are_model_defaults_modified = False,
      is_structural_plasticity_enabled = False, OMP_NUM_THREADS = None\<rparr>"
     "[local_num_threads \<mapsto> 3, total_num_virtual_procs \<mapsto> 7]" 7 True "VPManager_ctor True"]
  by (simp add: local_num_threads_def total_num_virtual_procs_def)

section \<open>The guard protocol\<close>




section \<open>Requests that change nothing\<close>

text \<open>
  Against claim C4 as it is worded. On three processes in a pristine kernel, a request
  for 6148914691236517206 threads is committed. In that state the number of virtual
  processes is the product wrapped to 64 bits, which is 2, and a request for these
  current 2 virtual processes raises \<^verbatim>\<open>BadProperty\<close>, since 2 is not a multiple of 3.
  With \<open>2 ^ 63\<close> threads on two processes the current number of virtual processes is 0;
  requesting it derives 0 threads, which differs from the current thread count, and with
  nodes present the call raises \<^verbatim>\<open>KernelException\<close>.
\<close>

theorem set_status_idempotent_counterexample:
  "manager (set_status True
       \<lparr>get_num_processes = 3, node_manager_size = 0, get_user_set_delay_extrema = False,
        has_been_simulated = False, are_model_defaults_modified = False,
        is_structural_plasticity_enabled = False, OMP_NUM_THREADS = None\<rparr>
       [local_num_threads \<mapsto> 6148914691236517206] (VPManager_ctor True))
     = \<lparr>force_singlethreading_m = False, n_threads_m = 6148914691236517206\<rparr>
   \<and> get_num_virtual_processes
       \<lparr>get_num_processes = 3, node_manager_size = 0, get_user_set_delay_extrema = False,
        has_been_simulated = False, are_model_defaults_modified = False,
        is_structural_plasticity_enabled = False, OMP_NUM_THREADS = None\<rparr>
       \<lparr>force_singlethreading_m = False, n_threads_m = 6148914691236517206\<rparr> = 2
   \<and> set_status True
       \<lparr>get_num_processes = 3, node_manager_size = 0, get_user_set_delay_extrema = False,
        has_been_simulated = False, are_model_defaults_modified = False,
        is_structural_plasticity_enabled = False, OMP_NUM_THREADS = None\<rparr>
       [total_num_virtual_procs \<mapsto> 2]
       \<lparr>force_singlethreading_m = False, n_threads_m = 6148914691236517206\<rparr>
     = \<lparr>raised = Some (BadProperty BadProperty_msg),
        manager = \<lparr>force_singlethreading_m = False, n_threads_m = 6148914691236517206\<rparr>,
        effects = []\<rparr>
   \<and> get_num_virtual_processes
       \<lparr>get_num_processes = 2, node_manager_size = 5, get_user_set_delay_extrema = False,
        has_been_simulated = False, are_model_defaults_modified = False,
        is_structural_plasticity_enabled = False, OMP_NUM_THREADS = None\<rparr>
       \<lparr>force_singlethreading_m = False, n_threads_m = 9223372036854775808\<rparr> = 0
   \<and> set_status True
       \<lparr>get_num_processes = 2, node_manager_size = 5, get_user_set_delay_extrema = False,
        has_been_simulated = False, are_model_defaults_modified = False,
        is_structural_plasticity_enabled = False, OMP_NUM_THREADS = None\<rparr>
       [total_num_virtual_procs \<mapsto> 0]
       \<lparr>force_singlethreading_m = False, n_threads_m = 9223372036854775808\<rparr>
     = \<lparr>raised = Some (KernelException
          ''Number of threads unchanged. Error conditions: Nodes exist.''),
        manager = \<lparr>force_singlethreading_m = False, n_threads_m = 9223372036854775808\<rparr>,
        effects = []\<rparr>"
  by (simp add: vp_defs collect_errors_def get_OMP_NUM_THREADS_def
      local_num_threads_def total_num_virtual_procs_def VPManager_ctor_def)

text \<open>
  Claim C4, amended. A call of \<^verbatim>\<open>set_status\<close> that requests the current thread count,
  the current number of virtual processes, both or neither, raises nothing, leaves the
  manager as it was and emits no effect (no warning is logged and the OpenMP runtime is
  not asked to resize), whatever the guards would say, in every state when no number of
  virtual processes is requested, and otherwise in every state in which the number of
  processes is at least 1 and the thread count times the number of processes is below
  \<open>2 ^ 64\<close>, so that the current number of virtual processes is that product and not a
  wrapped value.
\<close>

theorem set_status_idempotent:
  assumes t: "d local_num_threads = None \<or> d local_num_threads = Some (n_threads_m vp)"
    and v: "d total_num_virtual_procs = None
            \<or> (d total_num_virtual_procs = Some (n_threads_m vp * get_num_processes k)
               \<and> get_num_processes k \<noteq> 0
               \<and> unat (n_threads_m vp) * unat (get_num_processes k) < 2 ^ 64)"
  shows "set_status openmp k d vp = \<lparr>raised = None, manager = vp, effects = []\<rparr>"
proof (cases "d total_num_virtual_procs")
  case None
  then show ?thesis
    using t by (auto simp: vp_defs split: option.splits)
next
  case (Some w)
  then have w: "w = n_threads_m vp * get_num_processes k"
    and c: "(n_threads_m vp * get_num_processes k) div get_num_processes k = n_threads_m vp
            \<and> (n_threads_m vp * get_num_processes k) mod get_num_processes k = 0"
    using v word_mult_div_cancel [of "get_num_processes k" "n_threads_m vp"] by auto
  show ?thesis
    using t Some w c by (auto simp: vp_defs split: option.splits)
qed

text \<open>
  Two threads on three processes, with nodes present, a simulated network and structural
  plasticity enabled: requesting 2 threads and 6 virtual processes changes nothing.
\<close>

theorem set_status_idempotent_witness:
  "set_status True
       \<lparr>get_num_processes = 3, node_manager_size = 5, get_user_set_delay_extrema = False,
        has_been_simulated = True, are_model_defaults_modified = False,
        is_structural_plasticity_enabled = True, OMP_NUM_THREADS = Some 4\<rparr>
       [local_num_threads \<mapsto> 2, total_num_virtual_procs \<mapsto> 6]
       \<lparr>force_singlethreading_m = False, n_threads_m = 2\<rparr>
     = \<lparr>raised = None, manager = \<lparr>force_singlethreading_m = False, n_threads_m = 2\<rparr>,
        effects = []\<rparr>"
  using set_status_idempotent [where openmp = True
       and d = "[local_num_threads \<mapsto> 2, total_num_virtual_procs \<mapsto> 6]"
       and vp = "\<lparr>force_singlethreading_m = False, n_threads_m = 2\<rparr>"
       and k = "\<lparr>get_num_processes = 3, node_manager_size = 5, get_user_set_delay_extrema = False,
        has_been_simulated = True, are_model_defaults_modified = False,
        is_structural_plasticity_enabled = True, OMP_NUM_THREADS = Some 4\<rparr>"]
  by (simp add: local_num_threads_def total_num_virtual_procs_def)

section \<open>The implied thread count\<close>

text \<open>
  Against claim C5 as it is worded. A requested \<^verbatim>\<open>long\<close> of \<open>-1\<close> on five processes is
  not a multiple of 5, and \<open>-1\<close> divided by 5 is 0 (or \<open>-1\<close>, rounding down). The code
  reads the request as \<open>2 ^ 64 - 1 = 5 * 3689348814741910323\<close>: the validation lets it
  through, and a pristine kernel commits 3689348814741910323 threads.
\<close>

theorem set_status_implied_threads_counterexample:
  "sint (- 1 :: long) = - 1
   \<and> \<not> (5 :: int) dvd sint (- 1 :: long)
   \<and> raised (set_status True
       \<lparr>get_num_processes = 5, node_manager_size = 0, get_user_set_delay_extrema = False,
        has_been_simulated = False, are_model_defaults_modified = False,
        is_structural_plasticity_enabled = False, OMP_NUM_THREADS = None\<rparr>
       [total_num_virtual_procs \<mapsto> - 1] (VPManager_ctor True)) = None
   \<and> sint (n_threads_m (manager (set_status True
       \<lparr>get_num_processes = 5, node_manager_size = 0, get_user_set_delay_extrema = False,
        has_been_simulated = False, are_model_defaults_modified = False,
        is_structural_plasticity_enabled = False, OMP_NUM_THREADS = None\<rparr>
       [total_num_virtual_procs \<mapsto> - 1] (VPManager_ctor True)))) = 3689348814741910323"
  by (simp add: vp_defs collect_errors_def get_OMP_NUM_THREADS_def
      local_num_threads_def total_num_virtual_procs_def VPManager_ctor_def)

text \<open>
  Claim C5, amended. The requested number is read as the unsigned 64-bit value \<open>v\<close> into
  which the code converts it; for a request that is not negative this is the requested
  number itself. A call of \<^verbatim>\<open>set_status\<close> that requests \<open>v\<close> virtual processes and no
  thread count, on at least one process: when \<open>v\<close> is not a multiple of the number of
  processes the call raises \<^verbatim>\<open>BadProperty\<close> and changes nothing; whenever the call
  raises nothing, the thread count after it is the integer quotient of \<open>v\<close> by the number
  of processes; and the call raises nothing when \<open>v\<close> is a multiple and no guard fails
  for that quotient. The commit is \<^verbatim>\<open>change_number_of_threads\<close>, modelled from the spec.
\<close>

theorem set_status_implied_threads:
  assumes P: "get_num_processes k \<noteq> 0"
    and t: "d local_num_threads = None"
    and v: "d total_num_virtual_procs = Some v"
  shows "(\<not> unat (get_num_processes k) dvd unat v \<longrightarrow>
            set_status openmp k d vp
              = \<lparr>raised = Some (BadProperty BadProperty_msg), manager = vp, effects = []\<rparr>)
       \<and> (raised (set_status openmp k d vp) = None \<longrightarrow>
            unat (n_threads_m (manager (set_status openmp k d vp)))
              = unat v div unat (get_num_processes k))
       \<and> (unat (get_num_processes k) dvd unat v
            \<and> node_manager_size k = 0 \<and> \<not> get_user_set_delay_extrema k
            \<and> \<not> has_been_simulated k \<and> \<not> are_model_defaults_modified k
            \<and> \<not> (is_structural_plasticity_enabled k \<and> 1 < v div get_num_processes k)
            \<and> \<not> (force_singlethreading_m vp \<and> 1 < v div get_num_processes k) \<longrightarrow>
            raised (set_status openmp k d vp) = None
            \<and> n_threads_m (manager (set_status openmp k d vp)) = v div get_num_processes k)"
proof -
  let ?P = "get_num_processes k"
  let ?r = "set_status openmp k d vp"
  have n: "v div ?P = (case d local_num_threads of Some t \<Rightarrow> t
                   | None \<Rightarrow> (case d total_num_virtual_procs of
                                Some w \<Rightarrow> w div ?P
                              | None \<Rightarrow> n_threads_m vp))"
    using t v by simp
  have w: "v = (case d total_num_virtual_procs of Some w \<Rightarrow> w
                 | None \<Rightarrow> n_threads_m vp * ?P)"
    using v by simp
  have 1: "?r = \<lparr>raised = Some (BadProperty BadProperty_msg), manager = vp, effects = []\<rparr>"
    if "\<not> unat ?P dvd unat v"
  proof -
    have m: "v mod ?P \<noteq> 0" using that by (simp add: word_dvd_mod)
    from n w show ?thesis
      by (cases rule: set_status_cases [where openmp = openmp]) (use m v in simp_all)
  qed
  have 2: "unat (n_threads_m (manager ?r)) = unat v div unat ?P" if "raised ?r = None"
  proof -
    have "n_threads_m (manager ?r) = v div ?P"
      using n w
    proof (cases rule: set_status_cases [where openmp = openmp])
      case incompatible
      then show ?thesis using that by simp
    next
      case locked
      then show ?thesis using that by simp
    next
      case commit
      then show ?thesis by simp
    next
      case unchanged
      then show ?thesis by simp
    qed
    then show ?thesis by (simp add: unat_div)
  qed
  have 3: "raised ?r = None \<and> n_threads_m (manager ?r) = v div ?P"
    if a: "unat ?P dvd unat v
            \<and> node_manager_size k = 0 \<and> \<not> get_user_set_delay_extrema k
            \<and> \<not> has_been_simulated k \<and> \<not> are_model_defaults_modified k
            \<and> \<not> (is_structural_plasticity_enabled k \<and> 1 < v div ?P)
            \<and> \<not> (force_singlethreading_m vp \<and> 1 < v div ?P)"
  proof -
    have m: "v mod ?P = 0" using a by (simp add: word_dvd_mod)
    have e: "collect_errors k vp (v div ?P) = []"
      using a by (simp add: collect_errors_Nil)
    show ?thesis
      using n w
    proof (cases rule: set_status_cases [where openmp = openmp])
      case incompatible
      then show ?thesis using m by simp
    next
      case locked
      then show ?thesis using e by simp
    next
      case commit
      then show ?thesis by simp
    next
      case unchanged
      then show ?thesis by simp
    qed
  qed
  show ?thesis using 1 2 3 by blast
qed

text \<open>
  With four processes, a request for 8 virtual processes on a freshly constructed manager
  succeeds and leaves 2 threads.
\<close>

theorem set_status_implied_threads_witness:
  "raised (set_status True
     \<lparr>get_num_processes = 4, node_manager_size = 0, get_user_set_delay_extrema = False,
      has_been_simulated = False, are_model_defaults_modified = False,
      is_structural_plasticity_enabled = False, OMP_NUM_THREADS = None\<rparr>
     [total_num_virtual_procs \<mapsto> 8] (VPManager_ctor True)) = None
   \<and> n_threads_m (manager (set_status True
     \<lparr>get_num_processes = 4, node_manager_size = 0, get_user_set_delay_extrema = False,
      has_been_simulated = False, are_model_defaults_modified = False,
      is_structural_plasticity_enabled = False, OMP_NUM_THREADS = None\<rparr>
     [total_num_virtual_procs \<mapsto> 8] (VPManager_ctor True))) = 2"
  using set_status_implied_threads [of
     "\<lparr>get_num_processes = 4, node_manager_size = 0, get_user_set_delay_extrema = False,
      has_been_simulated = False, are_model_defaults_modified = False,
      is_structural_plasticity_enabled = False, OMP_NUM_THREADS = None\<rparr>"
     "[total_num_virtual_procs \<mapsto> 8]" 8 True "VPManager_ctor True"]
  by (simp add: local_num_threads_def total_num_virtual_procs_def VPManager_ctor_def)

section \<open>Structural plasticity and multithreading\<close>




section \<open>The thread count stays positive only for positive requests\<close>

text \<open>
  Against claim C7 as it is worded. On a freshly constructed manager in a pristine
  kernel, a request for 0 threads passes every guard and is committed: the thread count
  after the call is 0.
\<close>

theorem thread_count_zero_counterexample:
  "set_status True
       \<lparr>get_num_processes = 1, node_manager_size = 0, get_user_set_delay_extrema = False,
        has_been_simulated = False, are_model_defaults_modified = False,
        is_structural_plasticity_enabled = False, OMP_NUM_THREADS = None\<rparr>
       [local_num_threads \<mapsto> 0] (VPManager_ctor True)
     = \<lparr>raised = None, manager = \<lparr>force_singlethreading_m = False, n_threads_m = 0\<rparr>,
        effects = [omp_set_num_threads 0]\<rparr>"
  by (simp add: vp_defs collect_errors_def get_OMP_NUM_THREADS_def
      local_num_threads_def total_num_virtual_procs_def VPManager_ctor_def)

text \<open>
  Claim C7, amended. The number of processes is at least 1. The thread count is 1
  after construction and after \<^verbatim>\<open>initialize\<close> with a reset; \<^verbatim>\<open>initialize\<close> without a
  reset leaves the manager as it was; a call of \<^verbatim>\<open>set_status\<close> leaves the manager as it was or stores the thread count
  \<open>n\<close> of the request (the requested one, or the one derived from the requested number
  of virtual processes) and nothing else. Hence the thread count stays at least 1 over
  a call of \<^verbatim>\<open>set_status\<close> when it was at least 1 before and \<open>n\<close> is at least 1.
\<close>

theorem thread_count_positive:
  assumes P: "get_num_processes k \<noteq> 0"
    and n: "n = (case d local_num_threads of Some t \<Rightarrow> t
                   | None \<Rightarrow> (case d total_num_virtual_procs of
                                Some w \<Rightarrow> w div get_num_processes k
                              | None \<Rightarrow> n_threads_m vp))"
  shows "n_threads_m (VPManager_ctor openmp) = 1
       \<and> n_threads_m (manager (initialize openmp k True vp)) = 1
       \<and> manager (initialize openmp k False vp) = vp
       \<and> (manager (set_status openmp k d vp) = vp
            \<or> manager (set_status openmp k d vp) = vp\<lparr>n_threads_m := n\<rparr>)
       \<and> (1 \<le> n_threads_m vp \<and> 1 \<le> n \<longrightarrow> 1 \<le> n_threads_m (manager (set_status openmp k d vp)))"
proof -
  define v where "v = (case d total_num_virtual_procs of Some w \<Rightarrow> w
                 | None \<Rightarrow> n_threads_m vp * get_num_processes k)"
  have s: "manager (set_status openmp k d vp) = vp
            \<or> manager (set_status openmp k d vp) = vp\<lparr>n_threads_m := n\<rparr>"
    using n v_def by (cases rule: set_status_cases [where openmp = openmp]) simp_all
  then have "1 \<le> n_threads_m vp \<and> 1 \<le> n \<longrightarrow> 1 \<le> n_threads_m (manager (set_status openmp k d vp))"
    by auto
  with s show ?thesis
    by (simp add: VPManager_ctor_def initialize_reset initialize_no_reset)
qed

text \<open>A request for 4 threads on a freshly constructed manager leaves 4 threads.\<close>

theorem thread_count_positive_witness:
  "n_threads_m (manager (set_status True
       \<lparr>get_num_processes = 2, node_manager_size = 0, get_user_set_delay_extrema = False,
        has_been_simulated = False, are_model_defaults_modified = False,
        is_structural_plasticity_enabled = False, OMP_NUM_THREADS = None\<rparr>
       [local_num_threads \<mapsto> 4] (VPManager_ctor True))) = 4
   \<and> (1 :: size_t) \<le> 4"
  using thread_count_positive [where n = 4 and openmp = True
       and d = "[local_num_threads \<mapsto> 4]" and vp = "VPManager_ctor True"
       and k = "\<lparr>get_num_processes = 2, node_manager_size = 0, get_user_set_delay_extrema = False,
        has_been_simulated = False, are_model_defaults_modified = False,
        is_structural_plasticity_enabled = False, OMP_NUM_THREADS = None\<rparr>"]
  by (simp add: vp_defs collect_errors_def local_num_threads_def total_num_virtual_procs_def
      VPManager_ctor_def)

section \<open>The commit of the thread count\<close>

lemma set_status_no_assertion:
  "raised (set_status openmp k d vp) \<noteq> Some AssertionFailure"
proof -
  define n where "n = (case d local_num_threads of Some t \<Rightarrow> t
                   | None \<Rightarrow> (case d total_num_virtual_procs of
                                Some w \<Rightarrow> w div get_num_processes k
                              | None \<Rightarrow> n_threads_m vp))"
  define v where "v = (case d total_num_virtual_procs of Some w \<Rightarrow> w
                 | None \<Rightarrow> n_threads_m vp * get_num_processes k)"
  from n_def v_def show ?thesis
    by (cases rule: set_status_cases [where openmp = openmp]) simp_all
qed

text \<open>
  Claim C8. The number of processes is at least 1. \<^verbatim>\<open>set_num_threads\<close> with \<open>n\<close>
  threads fails its assertion exactly when structural plasticity is enabled and \<open>n\<close>
  exceeds 1, and then changes nothing; otherwise it stores \<open>n\<close> and, in a build with
  OpenMP, calls \<^verbatim>\<open>omp_set_num_threads\<close> with \<open>n\<close>. Reached from \<^verbatim>\<open>set_status\<close>
  (through \<^verbatim>\<open>change_number_of_threads\<close>, modelled from the spec) or from
  \<^verbatim>\<open>initialize\<close>, where \<open>n\<close> is 1, the assertion never fails.
\<close>

theorem set_num_threads_commit:
  assumes P: "get_num_processes k \<noteq> 0"
  shows "set_num_threads openmp k n vp
     = (if is_structural_plasticity_enabled k \<and> 1 < n
        then \<lparr>raised = Some AssertionFailure, manager = vp, effects = []\<rparr>
        else \<lparr>raised = None, manager = vp\<lparr>n_threads_m := n\<rparr>,
              effects = (if openmp then [omp_set_num_threads (ucast n)] else [])\<rparr>)
   \<and> raised (set_status openmp k d vp) \<noteq> Some AssertionFailure
   \<and> raised (initialize openmp k reset_kernel vp) \<noteq> Some AssertionFailure"
proof -
  have "raised (initialize openmp k reset_kernel vp) \<noteq> Some AssertionFailure"
    by (cases reset_kernel) (simp_all add: initialize_reset initialize_no_reset)
  then show ?thesis
    by (simp add: set_num_threads_def set_status_no_assertion)
qed

text \<open>
  Without structural plasticity, 3 threads are stored and the runtime is called with 3;
  a request for 3 threads and a reset both pass the assertion.
\<close>

theorem set_num_threads_commit_witness:
  "set_num_threads True
       \<lparr>get_num_processes = 2, node_manager_size = 0, get_user_set_delay_extrema = False,
        has_been_simulated = False, are_model_defaults_modified = False,
        is_structural_plasticity_enabled = False, OMP_NUM_THREADS = None\<rparr>
       3 (VPManager_ctor True)
     = \<lparr>raised = None, manager = \<lparr>force_singlethreading_m = False, n_threads_m = 3\<rparr>,
        effects = [omp_set_num_threads 3]\<rparr>
   \<and> raised (set_status True
       \<lparr>get_num_processes = 2, node_manager_size = 0, get_user_set_delay_extrema = False,
        has_been_simulated = False, are_model_defaults_modified = False,
        is_structural_plasticity_enabled = False, OMP_NUM_THREADS = None\<rparr>
       [local_num_threads \<mapsto> 3] (VPManager_ctor True)) \<noteq> Some AssertionFailure
   \<and> raised (initialize True
       \<lparr>get_num_processes = 2, node_manager_size = 0, get_user_set_delay_extrema = False,
        has_been_simulated = False, are_model_defaults_modified = False,
        is_structural_plasticity_enabled = False, OMP_NUM_THREADS = None\<rparr>
       True (VPManager_ctor True)) \<noteq> Some AssertionFailure"
  using set_num_threads_commit [where n = 3 and openmp = True
       and d = "[local_num_threads \<mapsto> 3]" and vp = "VPManager_ctor True"
       and reset_kernel = True
       and k = "\<lparr>get_num_processes = 2, node_manager_size = 0, get_user_set_delay_extrema = False,
        has_been_simulated = False, are_model_defaults_modified = False,
        is_structural_plasticity_enabled = False, OMP_NUM_THREADS = None\<rparr>"]
  by (simp add: VPManager_ctor_def)

section \<open>The environment variable \<^verbatim>\<open>OMP_NUM_THREADS\<close>\<close>




section \<open>Requests without a number of virtual processes\<close>

text \<open>
  Claim C10. A call of \<^verbatim>\<open>set_status\<close> whose dictionary has no entry
  \<^verbatim>\<open>total_num_virtual_procs\<close> never raises \<^verbatim>\<open>BadProperty\<close>; its outcome does not
  depend on the number of processes at all; and it is the outcome of the change
  detection and the guards on the thread count \<open>n\<close> of the request, whatever \<open>n\<close> is:
  nothing happens when \<open>n\<close> is the current thread count, \<^verbatim>\<open>KernelException\<close> is raised
  when a guard fails, and \<open>n\<close> is committed otherwise.
\<close>

theorem set_status_threads_only:
  assumes v: "d total_num_virtual_procs = None"
    and n: "n = (case d local_num_threads of Some t \<Rightarrow> t | None \<Rightarrow> n_threads_m vp)"
  shows "(\<forall>m. raised (set_status openmp k d vp) \<noteq> Some (BadProperty m))
       \<and> set_status openmp (k\<lparr>get_num_processes := p\<rparr>) d vp = set_status openmp k d vp
       \<and> set_status openmp k d vp
           = (if n = n_threads_m vp then \<lparr>raised = None, manager = vp, effects = []\<rparr>
              else if collect_errors k vp n \<noteq> []
              then \<lparr>raised = Some (KernelException
                      (append_errors ''Number of threads unchanged. Error conditions:''
                         (collect_errors k vp n))),
                    manager = vp, effects = []\<rparr>
              else \<lparr>raised = None, manager = vp\<lparr>n_threads_m := n\<rparr>,
                    effects = (if 0 < get_OMP_NUM_THREADS k \<and> get_OMP_NUM_THREADS k \<noteq> n
                               then [LOG M_WARNING ''VPManager::set_status()'' OMP_msg] else [])
                            @ (if openmp then [omp_set_num_threads (ucast n)] else [])\<rparr>)"
proof -
  have u: "set_status openmp k d vp
           = (if n = n_threads_m vp then \<lparr>raised = None, manager = vp, effects = []\<rparr>
              else if collect_errors k vp n \<noteq> []
              then \<lparr>raised = Some (KernelException
                      (append_errors ''Number of threads unchanged. Error conditions:''
                         (collect_errors k vp n))),
                    manager = vp, effects = []\<rparr>
              else \<lparr>raised = None, manager = vp\<lparr>n_threads_m := n\<rparr>,
                    effects = (if 0 < get_OMP_NUM_THREADS k \<and> get_OMP_NUM_THREADS k \<noteq> n
                               then [LOG M_WARNING ''VPManager::set_status()'' OMP_msg] else [])
                            @ (if openmp then [omp_set_num_threads (ucast n)] else [])\<rparr>)"
    for k
  proof -
    have n': "n = (case d local_num_threads of Some t \<Rightarrow> t
                   | None \<Rightarrow> (case d total_num_virtual_procs of
                                Some w \<Rightarrow> w div get_num_processes k
                              | None \<Rightarrow> n_threads_m vp))"
      using v n by (simp split: option.splits)
    have w: "n_threads_m vp * get_num_processes k
               = (case d total_num_virtual_procs of Some w \<Rightarrow> w
                  | None \<Rightarrow> n_threads_m vp * get_num_processes k)"
      using v by simp
    from n' w show ?thesis
      by (cases rule: set_status_cases [where openmp = openmp]) (use v in simp_all)
  qed
  have c: "collect_errors (k\<lparr>get_num_processes := p\<rparr>) vp n = collect_errors k vp n"
    by (simp add: collect_errors_def)
  have o: "get_OMP_NUM_THREADS (k\<lparr>get_num_processes := p\<rparr>) = get_OMP_NUM_THREADS k"
    by (simp add: get_OMP_NUM_THREADS_def)
  have "set_status openmp (k\<lparr>get_num_processes := p\<rparr>) d vp = set_status openmp k d vp"
    unfolding u c o ..
  moreover have "\<forall>m. raised (set_status openmp k d vp) \<noteq> Some (BadProperty m)"
    unfolding u by simp
  ultimately show ?thesis using u by blast
qed

text \<open>A request for 3 threads on two processes is committed, though 3 is odd.\<close>

theorem set_status_threads_only_witness:
  "set_status True
       \<lparr>get_num_processes = 2, node_manager_size = 0, get_user_set_delay_extrema = False,
        has_been_simulated = False, are_model_defaults_modified = False,
        is_structural_plasticity_enabled = False, OMP_NUM_THREADS = None\<rparr>
       [local_num_threads \<mapsto> 3] (VPManager_ctor True)
     = \<lparr>raised = None, manager = \<lparr>force_singlethreading_m = False, n_threads_m = 3\<rparr>,
        effects = [omp_set_num_threads 3]\<rparr>"
  using set_status_threads_only [where n = 3 and openmp = True
       and d = "[local_num_threads \<mapsto> 3]" and vp = "VPManager_ctor True"
       and k = "\<lparr>get_num_processes = 2, node_manager_size = 0, get_user_set_delay_extrema = False,
        has_been_simulated = False, are_model_defaults_modified = False,
        is_structural_plasticity_enabled = False, OMP_NUM_THREADS = None\<rparr>"]
  by (simp add: collect_errors_def get_OMP_NUM_THREADS_def
      local_num_threads_def total_num_virtual_procs_def VPManager_ctor_def)

end
